theory Spec2Isabelle
  imports Main "HOL-Library.AList"
begin

section \<open>URL parameters\<close>

text \<open>
  \<^verbatim>\<open>type Param struct { Key string; Value string }\<close> and
  \<^verbatim>\<open>type Params []Param\<close>. Go strings are byte sequences, as \<open>string\<close> is.
\<close>

record Param =
  Key :: string
  Value :: string

type_synonym Params = "Param list"

text \<open>
  \<^verbatim>\<open>for _, entry := range ps { if entry.Key == name { return entry.Value } }; return ""\<close>
\<close>

fun ByName :: "Params \<Rightarrow> string \<Rightarrow> string" where
  "ByName [] name = ''''"
| "ByName (entry # ps) name = (if Key entry = name then Value entry else ByName ps name)"

definition default404Body :: string where
  "default404Body = ''404 page not found''"

definition default405Body :: string where
  "default405Body = ''405 method not allowed''"

section \<open>Requests, the response writer and the context\<close>

text \<open>
  The request as the engine reads it: \<^verbatim>\<open>req.Method\<close>, \<^verbatim>\<open>req.URL.Path\<close>, and
  the query that \<^verbatim>\<open>req.URL.String()\<close> prints behind the path.
\<close>

record url_URL =
  Path :: string
  RawQuery :: string

record http_Request =
  Method :: string
  URL :: url_URL

text \<open>
  Modelled from the spec: the response-writer wrapper (\<^verbatim>\<open>writermem\<close>, also reachable as
  \<^verbatim>\<open>c.Writer\<close>) is declared outside the file at hand. The spec has it track
  ``whether headers/body were already written, and the status code''; the header
  fields and the body sent so far complete the observable response.
\<close>

record ResponseWriter =
  status :: int
  written :: bool
  header :: "(string \<times> string) list"
  body :: string

record 'h Context =
  Request :: http_Request
  Writer :: ResponseWriter
  Params :: Params
  handlers :: "'h list"

definition Written :: "'h Context \<Rightarrow> bool" where
  "Written c = written (Writer c)"

definition Status :: "'h Context \<Rightarrow> int" where
  "Status c = status (Writer c)"

text \<open>
  Modelled from the spec: \<^verbatim>\<open>WriteHeaderNow\<close> flushes the status line once; afterwards the
  writer counts as written.
\<close>

definition WriteHeaderNow :: "'h Context \<Rightarrow> 'h Context" where
  "WriteHeaderNow c = (if written (Writer c) then c else c\<lparr>Writer := (Writer c)\<lparr>written := True\<rparr>\<rparr>)"

text \<open>
  Modelled from the spec: \<^verbatim>\<open>WriteHeader(code)\<close> records the status code; the rendering
  contract's ``negative status code sentinel means do not write a status line'' keeps the
  status that is already set.
\<close>

definition WriteHeader :: "int \<Rightarrow> 'h Context \<Rightarrow> 'h Context" where
  "WriteHeader code c = (if code > 0 then c\<lparr>Writer := (Writer c)\<lparr>status := code\<rparr>\<rparr> else c)"

definition Write :: "string \<Rightarrow> 'h Context \<Rightarrow> 'h Context" where
  "Write data c =
     (let c1 = WriteHeaderNow c
      in c1\<lparr>Writer := (Writer c1)\<lparr>body := body (Writer c1) @ data\<rparr>\<rparr>)"

definition Header_Set :: "string \<Rightarrow> string \<Rightarrow> 'h Context \<Rightarrow> 'h Context" where
  "Header_Set k v c = c\<lparr>Writer := (Writer c)\<lparr>header := AList.update k v (header (Writer c))\<rparr>\<rparr>"

definition Header_Get :: "'h Context \<Rightarrow> string \<Rightarrow> string option" where
  "Header_Get c k = map_of (header (Writer c)) k"

definition MIMEPlain :: string where
  "MIMEPlain = ''text/plain''"

text \<open>
  Modelled from the spec: \<^verbatim>\<open>Context.Data(code, contentType, data)\<close>, the rendering
  collaborator: ``given a status code and a typed payload, produce a serialized body and a
  Content-Type header''.
\<close>

definition Data :: "int \<Rightarrow> string \<Rightarrow> string \<Rightarrow> 'h Context \<Rightarrow> 'h Context" where
  "Data code contentType data c =
     Write data (WriteHeader code
       (if contentType = [] then c else Header_Set ''Content-Type'' contentType c))"

section \<open>Collaborators outside the file\<close>

text \<open>
  The routing tree (\<^verbatim>\<open>node\<close> with \<^verbatim>\<open>getValue\<close>, \<^verbatim>\<open>addRoute\<close>,
  \<^verbatim>\<open>findCaseInsensitivePath\<close>), \<^verbatim>\<open>CleanPath\<close> and the chain continuation
  \<^verbatim>\<open>Context.Next\<close> are called by the engine and defined elsewhere. They are parameters:
  \<open>'n\<close> is the type of a tree, \<open>'h\<close> of a handler, \<open>'e\<close> of what \<^verbatim>\<open>addRoute\<close> panics
  with. A \<^verbatim>\<open>nil\<close> handler slice returned by \<^verbatim>\<open>getValue\<close> is \<open>None\<close>.

  The string functions of the host's HTTP library are parameters as well, so that nothing
  is assumed of them: \<open>URL_String\<close> is \<^verbatim>\<open>URL.String\<close> (it escapes the path);
  \<open>redirectClean oldpath url\<close> is the target that \<^verbatim>\<open>http.Redirect\<close> derives from
  \<^verbatim>\<open>url\<close> (made absolute against the request path, cleaned, a trailing slash kept);
  \<open>hexEscapeNonASCII\<close> is the escaping of that target for the \<^verbatim>\<open>Location\<close> header;
  \<open>redirectNote target code\<close> is the short HTML note sent as body.
\<close>

record ('n, 'h, 'e) Collaborators =
  getValue :: "'n \<Rightarrow> string \<Rightarrow> Params \<Rightarrow> 'h list option \<times> Params \<times> bool"
  findCaseInsensitivePath :: "'n \<Rightarrow> string \<Rightarrow> bool \<Rightarrow> string \<times> bool"
  CleanPath :: "string \<Rightarrow> string"
  addRoute :: "'n \<Rightarrow> string \<Rightarrow> 'h list \<Rightarrow> 'e + 'n"
  newNode :: "'n"
  Next :: "'h Context \<Rightarrow> 'h Context"
  URL_String :: "url_URL \<Rightarrow> string"
  redirectClean :: "string \<Rightarrow> string \<Rightarrow> string"
  hexEscapeNonASCII :: "string \<Rightarrow> string"
  redirectNote :: "string \<Rightarrow> int \<Rightarrow> string"

text \<open>
  Modelled from the spec: \<^verbatim>\<open>http.Redirect(w, req, url, code)\<close> is the host library's; the
  spec names the status code and the \<^verbatim>\<open>Location\<close> header of the redirect response. The
  library sets \<^verbatim>\<open>Location\<close> to the escaped, cleaned target, hands the code to the
  writer's \<^verbatim>\<open>WriteHeader\<close> (which, in the wrapper, records it), and only for \<^verbatim>\<open>GET\<close>
  writes the note as body, which is what flushes the header; \<^verbatim>\<open>GET\<close> and \<^verbatim>\<open>HEAD\<close> get
  an HTML content type first. Content type and note are left out when the response already
  has a \<^verbatim>\<open>Content-Type\<close>. The request is the context's, its path already overwritten by
  the caller.
\<close>

definition http_Redirect ::
  "('n, 'h, 'e) Collaborators \<Rightarrow> string \<Rightarrow> int \<Rightarrow> 'h Context \<Rightarrow> 'h Context" where
  "http_Redirect X url code c =
     (let r = Request c;
          hadCT = (Header_Get c ''Content-Type'' \<noteq> None);
          target = redirectClean X (Path (URL r)) url;
          c1 = Header_Set ''Location'' (hexEscapeNonASCII X target) c;
          c2 = (if \<not> hadCT \<and> (Method r = ''GET'' \<or> Method r = ''HEAD'')
                then Header_Set ''Content-Type'' ''text/html; charset=utf-8'' c1
                else c1);
          c3 = WriteHeader code c2
      in if \<not> hadCT \<and> Method r = ''GET'' then Write (redirectNote X target code) c3
         else c3)"

section \<open>The engine\<close>

text \<open>
  \<^verbatim>\<open>Engine\<close> with the embedded \<^verbatim>\<open>RouterGroup\<close> (\<^verbatim>\<open>Handlers\<close>, \<^verbatim>\<open>absolutePath\<close>).
  \<^verbatim>\<open>trees\<close> is a Go map from method to tree: an association list read with \<open>map_of\<close>
  and written with \<open>AList.update\<close>, so that \<^verbatim>\<open>range\<close> can walk it. The renderer and the
  context pool play no part in routing and are left out.
\<close>

record ('n, 'h) Engine =
  Handlers :: "'h list"
  absolutePath :: string
  allNoRoute :: "'h list"
  allNoMethod :: "'h list"
  noRoute :: "'h list"
  noMethod :: "'h list"
  trees :: "(string \<times> 'n) list"
  RedirectTrailingSlash :: bool
  RedirectFixedPath :: bool
  HandleMethodNotAllowed :: bool

definition New :: "('n, 'h) Engine" where
  "New = \<lparr> Handlers = [], absolutePath = ''/'',
           allNoRoute = [], allNoMethod = [], noRoute = [], noMethod = [],
           trees = [],
           RedirectTrailingSlash = True, RedirectFixedPath = True,
           HandleMethodNotAllowed = True \<rparr>"

text \<open>
  Modelled from the spec: \<^verbatim>\<open>RouterGroup.combineHandlers\<close> and \<^verbatim>\<open>RouterGroup.Use\<close> are
  declared with the router group, outside the file. A handler chain is ``global middleware,
  then group middleware, then the route's own handlers'', and \<^verbatim>\<open>Use\<close> adds to the
  middleware of the group.
\<close>

definition combineHandlers :: "('n, 'h) Engine \<Rightarrow> 'h list \<Rightarrow> 'h list" where
  "combineHandlers engine hs = Handlers engine @ hs"

definition RouterGroup_Use :: "('n, 'h) Engine \<Rightarrow> 'h list \<Rightarrow> ('n, 'h) Engine" where
  "RouterGroup_Use engine middlewares = engine\<lparr>Handlers := Handlers engine @ middlewares\<rparr>"

definition rebuild404Handlers :: "('n, 'h) Engine \<Rightarrow> ('n, 'h) Engine" where
  "rebuild404Handlers engine = engine\<lparr>allNoRoute := combineHandlers engine (noRoute engine)\<rparr>"

definition rebuild405Handlers :: "('n, 'h) Engine \<Rightarrow> ('n, 'h) Engine" where
  "rebuild405Handlers engine = engine\<lparr>allNoMethod := combineHandlers engine (noMethod engine)\<rparr>"

definition NoRoute :: "('n, 'h) Engine \<Rightarrow> 'h list \<Rightarrow> ('n, 'h) Engine" where
  "NoRoute engine hs = rebuild404Handlers (engine\<lparr>noRoute := hs\<rparr>)"


definition Use :: "('n, 'h) Engine \<Rightarrow> 'h list \<Rightarrow> ('n, 'h) Engine" where
  "Use engine middlewares =
     rebuild405Handlers (rebuild404Handlers (RouterGroup_Use engine middlewares))"

subsection \<open>Registration\<close>

text \<open>
  A panic is a value. \<^verbatim>\<open>path[0]\<close> on the empty string is Go's index-out-of-range panic,
  raised before the comparison with \<^verbatim>\<open>'/'\<close>. \<^verbatim>\<open>engine.trees[method] = root\<close> stores a
  pointer, and \<^verbatim>\<open>addRoute\<close> changes the node behind it: the model stores the node that
  \<^verbatim>\<open>addRoute\<close> returns.
\<close>

datatype 'e panic =
    IndexOutOfRange
  | PathMustBeginWithSlash
  | AddRoutePanic 'e

definition handle ::
  "('n, 'h, 'e) Collaborators \<Rightarrow> ('n, 'h) Engine \<Rightarrow> string \<Rightarrow> string \<Rightarrow> 'h list
     \<Rightarrow> 'e panic + ('n, 'h) Engine" where
  "handle X engine method path hs =
     (case path of
        [] \<Rightarrow> Inl IndexOutOfRange
      | ch # _ \<Rightarrow>
          if ch \<noteq> CHR ''/'' then Inl PathMustBeginWithSlash
          else
            (let root = (case map_of (trees engine) method of
                           None \<Rightarrow> newNode X
                         | Some r \<Rightarrow> r)
             in case addRoute X root path hs of
                  Inl err \<Rightarrow> Inl (AddRoutePanic err)
                | Inr root' \<Rightarrow>
                    Inr (engine\<lparr>trees := AList.update method root' (trees engine)\<rparr>)))"

subsection \<open>Dispatch\<close>

definition serveError :: "('n, 'h, 'e) Collaborators \<Rightarrow> 'h Context \<Rightarrow> int \<Rightarrow> string \<Rightarrow> 'h Context" where
  "serveError X c code defaultMessage =
     (let c1 = c\<lparr>Writer := (Writer c)\<lparr>status := code\<rparr>\<rparr>;
          c2 = Next X c1
      in if \<not> Written c2 then
           (if Status c2 = code then Data (- 1) MIMEPlain defaultMessage c2
            else WriteHeaderNow c2)
         else c2)"

text \<open>
  \<^verbatim>\<open>serveAutoRedirect\<close> returns whether it redirected; \<^verbatim>\<open>req.URL.Path\<close> is overwritten
  only on the paths that return \<^verbatim>\<open>true\<close>.
\<close>

definition setPath :: "'h Context \<Rightarrow> string \<Rightarrow> 'h Context" where
  "setPath c p = c\<lparr>Request := (Request c)\<lparr>URL := (URL (Request c))\<lparr>Path := p\<rparr>\<rparr>\<rparr>"

definition serveAutoRedirect ::
  "('n, 'h, 'e) Collaborators \<Rightarrow> ('n, 'h) Engine \<Rightarrow> 'h Context \<Rightarrow> 'n \<Rightarrow> bool
     \<Rightarrow> 'h Context \<times> bool" where
  "serveAutoRedirect X engine c root tsr =
     (let req = Request c;
          path = Path (URL req);
          code = (if Method req \<noteq> ''GET'' then 307 else 301)
      in if tsr \<and> RedirectTrailingSlash engine then
           (let c1 = (if length path > 1 \<and> path ! (length path - 1) = CHR ''/''
                      then setPath c (take (length path - 1) path)
                      else setPath c (path @ ''/''))
            in (http_Redirect X (URL_String X (URL (Request c1))) code c1, True))
         else if RedirectFixedPath engine then
           (case findCaseInsensitivePath X root (CleanPath X path) (RedirectTrailingSlash engine) of
              (fixedPath, found) \<Rightarrow>
                if found then
                  (let c1 = setPath c fixedPath
                   in (http_Redirect X (URL_String X (URL (Request c1))) code c1, True))
                else (c, False))
         else (c, False))"

text \<open>
  The \<^verbatim>\<open>range\<close> loop over the trees of the other methods: does one of them resolve the
  path to a handler chain?
\<close>

fun otherMethodMatches ::
  "('n, 'h, 'e) Collaborators \<Rightarrow> (string \<times> 'n) list \<Rightarrow> string \<Rightarrow> string \<Rightarrow> bool" where
  "otherMethodMatches X [] httpMethod path = False"
| "otherMethodMatches X ((method, root) # ts) httpMethod path =
     (if method \<noteq> httpMethod \<and> fst (getValue X root path []) \<noteq> None then True
      else otherMethodMatches X ts httpMethod path)"

text \<open>Lines 224 to 236: what is served once neither a route nor a redirect was found.\<close>

definition serveNoMatch ::
  "('n, 'h, 'e) Collaborators \<Rightarrow> ('n, 'h) Engine \<Rightarrow> 'h Context \<Rightarrow> 'h Context" where
  "serveNoMatch X engine c =
     (let httpMethod = Method (Request c);
          path = Path (URL (Request c))
      in if HandleMethodNotAllowed engine \<and> otherMethodMatches X (trees engine) httpMethod path
         then serveError X (c\<lparr>handlers := allNoMethod engine\<rparr>) 405 default405Body
         else serveError X (c\<lparr>handlers := allNoMethod engine\<rparr>) 404 default404Body)"

definition serveHTTPRequest ::
  "('n, 'h, 'e) Collaborators \<Rightarrow> ('n, 'h) Engine \<Rightarrow> 'h Context \<Rightarrow> 'h Context" where
  "serveHTTPRequest X engine c =
     (let httpMethod = Method (Request c);
          path = Path (URL (Request c))
      in case map_of (trees engine) httpMethod of
           None \<Rightarrow> serveNoMatch X engine c
         | Some root \<Rightarrow>
             (case getValue X root path (Params c) of
                (Some hs, params, tsr) \<Rightarrow>
                  WriteHeaderNow (Next X (c\<lparr>handlers := hs, Params := params\<rparr>))
              | (None, params, tsr) \<Rightarrow>
                  if httpMethod \<noteq> ''CONNECT'' \<and> path \<noteq> ''/'' then
                    (case serveAutoRedirect X engine c root tsr of
                       (c', True) \<Rightarrow> c'
                     | (c', False) \<Rightarrow> serveNoMatch X engine c')
                  else serveNoMatch X engine c))"

section \<open>Calls that configure the chains\<close>







section \<open>Sample collaborators for concrete runs\<close>

text \<open>
  A small stand-in for the parts outside the file, used only to run the engine on concrete
  requests. A sample tree lists literal paths with their chains; a lookup that misses
  reports a trailing-slash candidate when the path with the slash toggled is listed.
  A sample handler writes a body, aborts with a status (the rest of the chain is skipped),
  or does nothing.
\<close>

datatype sampleHandler = WriteBody string | AbortWith int | Pass

type_synonym sampleNode = "(string \<times> sampleHandler list) list"

definition toggleSlash :: "string \<Rightarrow> string" where
  "toggleSlash p = (if p \<noteq> [] \<and> last p = CHR ''/'' then butlast p else p @ ''/'')"

definition sampleGetValue ::
  "sampleNode \<Rightarrow> string \<Rightarrow> Params \<Rightarrow> sampleHandler list option \<times> Params \<times> bool" where
  "sampleGetValue root p ps =
     (case map_of root p of
        Some hs \<Rightarrow> (Some hs, ps, False)
      | None \<Rightarrow> (None, ps, map_of root (toggleSlash p) \<noteq> None))"

fun sampleRun :: "sampleHandler list \<Rightarrow> sampleHandler Context \<Rightarrow> sampleHandler Context" where
  "sampleRun [] c = c"
| "sampleRun (WriteBody s # hs) c = sampleRun hs (Write s c)"
| "sampleRun (AbortWith code # hs) c = WriteHeader code c"
| "sampleRun (Pass # hs) c = sampleRun hs c"

text \<open>
  The library's string functions are stood in for by functions that agree with them on
  the sample requests, whose paths are clean, absolute and need no escaping.
\<close>

definition sampleNote :: "string \<Rightarrow> int \<Rightarrow> string" where
  "sampleNote target code =
     ''<a href='' @ CHR 0x22 # target @ CHR 0x22 # ''>''
       @ (if code = 301 then ''Moved Permanently'' else ''Temporary Redirect'')
       @ ''</a>.'' @ [CHR 0x0A, CHR 0x0A]"

definition sampleX :: "(sampleNode, sampleHandler, unit) Collaborators" where
  "sampleX = \<lparr> getValue = sampleGetValue,
               findCaseInsensitivePath = (\<lambda>root p fixTrailingSlash. ([], False)),
               CleanPath = (\<lambda>p. p),
               addRoute = (\<lambda>root p hs. Inr (AList.update p hs root)),
               newNode = [],
               Next = (\<lambda>c. sampleRun (handlers c) c),
               URL_String = (\<lambda>u. Path u @ (if RawQuery u = [] then [] else CHR ''?'' # RawQuery u)),
               redirectClean = (\<lambda>oldpath url. url),
               hexEscapeNonASCII = (\<lambda>s. s),
               redirectNote = sampleNote \<rparr>"

definition sampleContext :: "string \<Rightarrow> string \<Rightarrow> sampleHandler Context" where
  "sampleContext m p =
     \<lparr> Request = \<lparr> Method = m, URL = \<lparr> Path = p, RawQuery = [] \<rparr> \<rparr>,
       Writer = \<lparr> status = 200, written = False, header = [], body = [] \<rparr>,
       Params = [], handlers = [] \<rparr>"

definition fooEngine :: "(sampleNode, sampleHandler) Engine" where
  "fooEngine = New\<lparr>trees := [(''GET'', [(''/foo'', [WriteBody ''foo''])]),
                            (''POST'', [(''/foo'', [WriteBody ''posted''])])]\<rparr>"

definition connectEngine :: "(sampleNode, sampleHandler) Engine" where
  "connectEngine = New\<lparr>trees := [(''CONNECT'', [(''/foo'', [Pass])]),
                                (''GET'', [(''/foo/'', [Pass])])]\<rparr>"

text \<open>
  The target of a trailing-slash redirect as the specification words it: the slash is
  removed when the path ends in one and is longer than \<^verbatim>\<open>/\<close>, and appended otherwise.
\<close>

definition slashToggled :: "string \<Rightarrow> string" where
  "slashToggled p = (if length p > 1 \<and> last p = CHR ''/'' then butlast p else p @ ''/'')"


section \<open>Parameter lookup\<close>

lemma ByName_find:
  "ByName ps name = (case find (\<lambda>entry. Key entry = name) ps of None \<Rightarrow> '''' | Some entry \<Rightarrow> Value entry)"
  by (induction ps) auto

lemma ByName_none: "\<forall>entry\<in>set ps. Key entry \<noteq> name \<Longrightarrow> ByName ps name = ''''"
  by (induction ps) auto

lemma ByName_append: "\<forall>e\<in>set xs. Key e \<noteq> name \<Longrightarrow> ByName (xs @ ys) name = ByName ys name"
  by (induction xs) auto

text \<open>
  C8. For every parameter list and every name, \<open>ByName\<close> scans the pairs in order and
  returns the value of the first pair whose key is the name: it is the value found by a
  linear search, it is the value of an entry that no entry with that key precedes (later
  entries with the same key are never reached), and it is the empty string when no key
  is the name.
\<close>

theorem ByName_first_match:
  "ByName ps name =
     (case find (\<lambda>entry. Key entry = name) ps of None \<Rightarrow> '''' | Some entry \<Rightarrow> Value entry)
   \<and> ((\<forall>entry\<in>set ps. Key entry \<noteq> name) \<longrightarrow> ByName ps name = '''')
   \<and> (\<forall>xs entry ys. ps = xs @ entry # ys \<and> (\<forall>e\<in>set xs. Key e \<noteq> name) \<and> Key entry = name
         \<longrightarrow> ByName ps name = Value entry)"
proof (intro conjI allI impI)
  show "ByName ps name =
     (case find (\<lambda>entry. Key entry = name) ps of None \<Rightarrow> '''' | Some entry \<Rightarrow> Value entry)"
    by (rule ByName_find)
next
  assume "\<forall>entry\<in>set ps. Key entry \<noteq> name"
  then show "ByName ps name = ''''" by (rule ByName_none)
next
  fix xs entry ys
  assume "ps = xs @ entry # ys \<and> (\<forall>e\<in>set xs. Key e \<noteq> name) \<and> Key entry = name"
  then show "ByName ps name = Value entry" by (simp add: ByName_append)
qed

theorem ByName_first_match_witness:
  "ByName [\<lparr>Key = ''id'', Value = ''7''\<rparr>, \<lparr>Key = ''name'', Value = ''a''\<rparr>, \<lparr>Key = ''name'', Value = ''b''\<rparr>] ''name'' = ''a''
   \<and> ByName [\<lparr>Key = ''id'', Value = ''7''\<rparr>] ''name'' = ''''"
proof -
  let ?ps = "[\<lparr>Key = ''id'', Value = ''7''\<rparr>, \<lparr>Key = ''name'', Value = ''a''\<rparr>, \<lparr>Key = ''name'', Value = ''b''\<rparr>]"
  have "?ps = [\<lparr>Key = ''id'', Value = ''7''\<rparr>] @ \<lparr>Key = ''name'', Value = ''a''\<rparr> # [\<lparr>Key = ''name'', Value = ''b''\<rparr>]
        \<and> (\<forall>e\<in>set [\<lparr>Key = ''id'', Value = ''7''\<rparr>]. Key e \<noteq> ''name'')
        \<and> Key \<lparr>Key = ''name'', Value = ''a''\<rparr> = ''name''"
    by simp
  with ByName_first_match [of ?ps "''name''"]
  have a: "ByName ?ps ''name'' = Value \<lparr>Key = ''name'', Value = ''a''\<rparr>"
    by blast
  have "\<forall>entry\<in>set [\<lparr>Key = ''id'', Value = ''7''\<rparr>]. Key entry \<noteq> ''name''" by simp
  with ByName_first_match [of "[\<lparr>Key = ''id'', Value = ''7''\<rparr>]" "''name''"]
  have b: "ByName [\<lparr>Key = ''id'', Value = ''7''\<rparr>] ''name'' = ''''" by blast
  from a b show ?thesis by simp
qed

section \<open>Construction and the combined chains\<close>

text \<open>
  C9. The engine that \<open>New\<close> returns has \<open>RedirectTrailingSlash\<close>, \<open>RedirectFixedPath\<close>
  and \<open>HandleMethodNotAllowed\<close> switched on, no tree for any method, and no middleware:
  the group's handlers and both combined chains are empty.
\<close>

theorem New_defaults:
  "RedirectTrailingSlash New \<and> RedirectFixedPath New \<and> HandleMethodNotAllowed New
   \<and> trees New = [] \<and> map_of (trees New) method = None
   \<and> Handlers New = [] \<and> allNoRoute New = [] \<and> allNoMethod New = []"
  by (simp add: New_def)
















section \<open>The response writer and the sample collaborators, evaluated\<close>

lemma Status_http_Redirect: "0 < code \<Longrightarrow> Status (http_Redirect X url code c) = code"
  by (simp add: Status_def http_Redirect_def WriteHeader_def Header_Set_def Write_def
      WriteHeaderNow_def Let_def)

lemma Request_http_Redirect: "Request (http_Redirect X url code c) = Request c"
  by (simp add: http_Redirect_def WriteHeader_def Header_Set_def Write_def
      WriteHeaderNow_def Let_def)

lemma Location_http_Redirect:
  "Header_Get (http_Redirect X url code c) ''Location''
     = Some (hexEscapeNonASCII X (redirectClean X (Path (URL (Request c))) url))"
  by (simp add: Header_Get_def http_Redirect_def WriteHeader_def Header_Set_def Write_def
      WriteHeaderNow_def Let_def update_conv')

lemma Written_http_Redirect:
  "Written (http_Redirect X url code c)
     = (Written c \<or> (Header_Get c ''Content-Type'' = None \<and> Method (Request c) = ''GET''))"
  by (simp add: Written_def Header_Get_def http_Redirect_def WriteHeader_def Header_Set_def
      Write_def WriteHeaderNow_def Let_def)

lemma body_WriteHeaderNow: "body (Writer (WriteHeaderNow c)) = body (Writer c)"
  by (simp add: WriteHeaderNow_def)

lemma Status_WriteHeaderNow: "Status (WriteHeaderNow c) = Status c"
  by (simp add: WriteHeaderNow_def Status_def)

lemma body_Data: "body (Writer (Data code contentType data c)) = body (Writer c) @ data"
  by (simp add: Data_def Write_def WriteHeader_def WriteHeaderNow_def Header_Set_def Let_def)

lemma Status_Data_keep: "code \<le> 0 \<Longrightarrow> Status (Data code contentType data c) = Status c"
  by (simp add: Data_def Write_def WriteHeader_def WriteHeaderNow_def Header_Set_def Let_def Status_def)

lemmas sample_simps =
  sampleX_def sampleContext_def fooEngine_def New_def sampleGetValue_def toggleSlash_def
  serveAutoRedirect_def setPath_def http_Redirect_def WriteHeader_def Header_Set_def
  Header_Get_def Write_def WriteHeaderNow_def sampleNote_def Let_def

lemmas run_simps =
  serveError_def Written_def Status_def Data_def Write_def WriteHeader_def WriteHeaderNow_def
  Header_Set_def MIMEPlain_def Let_def sampleX_def sampleContext_def

section \<open>Automatic redirects\<close>

lemma setPath_kept:
  "Written (setPath c p) = Written c"
  "Header_Get (setPath c p) k = Header_Get c k"
  "Method (Request (setPath c p)) = Method (Request c)"
  by (simp_all add: setPath_def Written_def Header_Get_def)

lemma redirect_code_recorded:
  "serveAutoRedirect X engine c root tsr = (c', True) \<Longrightarrow>
     Status c' = (if Method (Request c) = ''GET'' then 301 else 307)"
  by (auto simp: serveAutoRedirect_def Let_def Status_http_Redirect
           split: if_splits prod.splits)

lemma redirect_flushed:
  "serveAutoRedirect X engine c root tsr = (c', True) \<Longrightarrow>
     Written c' = (Written c \<or> (Header_Get c ''Content-Type'' = None \<and> Method (Request c) = ''GET''))"
  by (auto simp: serveAutoRedirect_def Let_def Written_http_Redirect setPath_kept
           split: if_splits prod.splits)

text \<open>
  C2. The code that \<open>serveAutoRedirect\<close> hands to the redirect is 301 for \<^verbatim>\<open>GET\<close> and 307
  for every other method, on both the trailing-slash and the fixed-path branch, but the
  function returns without flushing the header. A \<^verbatim>\<open>GET\<close> redirect is sent as 301
  because the library writes a body; for \<^verbatim>\<open>POST\<close> and \<^verbatim>\<open>PUT\<close> the 307 is only recorded
  in the writer and the response is left unwritten.
\<close>

theorem redirect_307_recorded_not_sent:
  "snd (serveAutoRedirect sampleX fooEngine (sampleContext ''POST'' ''/foo/'')
          [(''/foo'', [WriteBody ''posted''])] True)
   \<and> Status (fst (serveAutoRedirect sampleX fooEngine (sampleContext ''POST'' ''/foo/'')
          [(''/foo'', [WriteBody ''posted''])] True)) = 307
   \<and> \<not> Written (fst (serveAutoRedirect sampleX fooEngine (sampleContext ''POST'' ''/foo/'')
          [(''/foo'', [WriteBody ''posted''])] True))
   \<and> snd (serveAutoRedirect
          (sampleX\<lparr>findCaseInsensitivePath := (\<lambda>root p fixTrailingSlash. (''/foo'', True))\<rparr>)
          fooEngine (sampleContext ''PUT'' ''/FOO'') [] False)
   \<and> Status (fst (serveAutoRedirect
          (sampleX\<lparr>findCaseInsensitivePath := (\<lambda>root p fixTrailingSlash. (''/foo'', True))\<rparr>)
          fooEngine (sampleContext ''PUT'' ''/FOO'') [] False)) = 307
   \<and> \<not> Written (fst (serveAutoRedirect
          (sampleX\<lparr>findCaseInsensitivePath := (\<lambda>root p fixTrailingSlash. (''/foo'', True))\<rparr>)
          fooEngine (sampleContext ''PUT'' ''/FOO'') [] False))
   \<and> Status (fst (serveAutoRedirect sampleX fooEngine (sampleContext ''GET'' ''/foo/'')
          [(''/foo'', [WriteBody ''foo''])] True)) = 301
   \<and> Written (fst (serveAutoRedirect sampleX fooEngine (sampleContext ''GET'' ''/foo/'')
          [(''/foo'', [WriteBody ''foo''])] True))"
  by (simp add: sample_simps Status_def Written_def)

lemma serveAutoRedirect_tsr:
  assumes "tsr" "RedirectTrailingSlash engine"
  shows "serveAutoRedirect X engine c root tsr =
           (http_Redirect X
              (URL_String X ((URL (Request c))\<lparr>Path := slashToggled (Path (URL (Request c)))\<rparr>))
              (if Method (Request c) = ''GET'' then 301 else 307)
              (setPath c (slashToggled (Path (URL (Request c))))), True)"
proof -
  let ?p = "Path (URL (Request c))"
  have "length ?p > 1 \<Longrightarrow> ?p ! (length ?p - 1) = last ?p"
    by (cases "?p = []") (simp_all add: last_conv_nth)
  moreover have "take (length ?p - 1) ?p = butlast ?p"
    by (simp add: butlast_conv_take)
  ultimately show ?thesis
    using assms
    by (auto simp: serveAutoRedirect_def Let_def slashToggled_def setPath_def)
qed

lemma trailing_slash_redirect_recorded:
  assumes "map_of (trees engine) (Method (Request c)) = Some root"
    and "getValue X root (Path (URL (Request c))) (Params c) = (None, ps, True)"
    and "RedirectTrailingSlash engine"
    and "Method (Request c) \<noteq> ''CONNECT''"
    and "Path (URL (Request c)) \<noteq> ''/''"
  shows "Header_Get (serveHTTPRequest X engine c) ''Location''
           = Some (hexEscapeNonASCII X (redirectClean X (slashToggled (Path (URL (Request c))))
                (URL_String X ((URL (Request c))\<lparr>Path := slashToggled (Path (URL (Request c)))\<rparr>))))
         \<and> Status (serveHTTPRequest X engine c)
             = (if Method (Request c) = ''GET'' then 301 else 307)
         \<and> Written (serveHTTPRequest X engine c)
             = (Written c \<or> (Header_Get c ''Content-Type'' = None \<and> Method (Request c) = ''GET''))
         \<and> Path (URL (Request (serveHTTPRequest X engine c)))
             = slashToggled (Path (URL (Request c)))"
proof -
  have "serveHTTPRequest X engine c = fst (serveAutoRedirect X engine c root True)"
    using assms by (simp add: serveHTTPRequest_def Let_def serveAutoRedirect_tsr)
  then show ?thesis
    using assms(3)
    by (simp add: serveAutoRedirect_tsr Location_http_Redirect Status_http_Redirect
        Request_http_Redirect Written_http_Redirect setPath_kept)
      (simp add: setPath_def)
qed

text \<open>
  C4. With \<^verbatim>\<open>/foo\<close> registered and \<open>RedirectTrailingSlash\<close> on, a request for
  \<^verbatim>\<open>/foo/\<close> gets the \<^verbatim>\<open>Location\<close> header \<^verbatim>\<open>/foo\<close>. On \<^verbatim>\<open>GET\<close> the response is
  sent with status 301. On \<^verbatim>\<open>POST\<close> the status 307 is recorded in the writer, but the
  engine returns without flushing the header, so nothing is written and no 307 is sent;
  a \<^verbatim>\<open>POST\<close> that matches its route is flushed.
\<close>

theorem trailing_slash_post_not_sent:
  "Header_Get (serveHTTPRequest sampleX fooEngine (sampleContext ''POST'' ''/foo/'')) ''Location''
     = Some ''/foo''
   \<and> Status (serveHTTPRequest sampleX fooEngine (sampleContext ''POST'' ''/foo/'')) = 307
   \<and> \<not> Written (serveHTTPRequest sampleX fooEngine (sampleContext ''POST'' ''/foo/''))
   \<and> body (Writer (serveHTTPRequest sampleX fooEngine (sampleContext ''POST'' ''/foo/''))) = []
   \<and> Header_Get (serveHTTPRequest sampleX fooEngine (sampleContext ''GET'' ''/foo/'')) ''Location''
     = Some ''/foo''
   \<and> Status (serveHTTPRequest sampleX fooEngine (sampleContext ''GET'' ''/foo/'')) = 301
   \<and> Written (serveHTTPRequest sampleX fooEngine (sampleContext ''GET'' ''/foo/''))
   \<and> Written (serveHTTPRequest sampleX fooEngine (sampleContext ''POST'' ''/foo''))"
  by (simp add: serveHTTPRequest_def sample_simps Status_def Written_def)

lemma otherMethodMatches_iff:
  "otherMethodMatches X ts httpMethod path \<longleftrightarrow>
     (\<exists>(method, root)\<in>set ts. method \<noteq> httpMethod \<and> fst (getValue X root path []) \<noteq> None)"
  by (induction ts) (auto split: if_splits)

lemma otherMethodMatches_getValue:
  "getValue X' = getValue X \<Longrightarrow>
     otherMethodMatches X' ts httpMethod path = otherMethodMatches X ts httpMethod path"
  by (simp add: otherMethodMatches_iff)

lemma serveError_Next:
  "Next X' = Next X \<Longrightarrow> serveError X' c code msg = serveError X c code msg"
  by (simp add: serveError_def)

lemma serveNoMatch_redirect_options:
  "serveNoMatch (X\<lparr>findCaseInsensitivePath := fcip, CleanPath := cp\<rparr>)
      (engine\<lparr>RedirectTrailingSlash := a, RedirectFixedPath := b\<rparr>) c
   = serveNoMatch X engine c"
proof -
  let ?X = "X\<lparr>findCaseInsensitivePath := fcip, CleanPath := cp\<rparr>"
  have g: "getValue ?X = getValue X" and n: "Next ?X = Next X"
    by simp_all
  show ?thesis
    unfolding serveNoMatch_def Let_def
    by (simp add: otherMethodMatches_getValue [OF g] serveError_Next [OF n])
qed

text \<open>
  C5. For a \<^verbatim>\<open>CONNECT\<close> request, and for the root path \<^verbatim>\<open>/\<close>, the engine never
  issues an automatic redirect: the request is either dispatched to the matched chain or
  served as 405 or 404, and the answer is the one of an engine with both redirect options
  switched off, whatever the case-insensitive lookup and the path cleaning would find.
\<close>

theorem no_redirect_for_connect_or_root:
  assumes "Method (Request c) = ''CONNECT'' \<or> Path (URL (Request c)) = ''/''"
  shows "serveHTTPRequest X engine c =
           (case map_of (trees engine) (Method (Request c)) of
              None \<Rightarrow> serveNoMatch X engine c
            | Some root \<Rightarrow>
                (case fst (getValue X root (Path (URL (Request c))) (Params c)) of
                   Some hs \<Rightarrow>
                     WriteHeaderNow (Next X (c\<lparr>handlers := hs,
                        Params := fst (snd (getValue X root (Path (URL (Request c))) (Params c)))\<rparr>))
                 | None \<Rightarrow> serveNoMatch X engine c))
         \<and> serveHTTPRequest X engine c =
             serveHTTPRequest (X\<lparr>findCaseInsensitivePath := fcip, CleanPath := cp\<rparr>)
               (engine\<lparr>RedirectTrailingSlash := False, RedirectFixedPath := False\<rparr>) c"
proof
  show "serveHTTPRequest X engine c =
           (case map_of (trees engine) (Method (Request c)) of
              None \<Rightarrow> serveNoMatch X engine c
            | Some root \<Rightarrow>
                (case fst (getValue X root (Path (URL (Request c))) (Params c)) of
                   Some hs \<Rightarrow>
                     WriteHeaderNow (Next X (c\<lparr>handlers := hs,
                        Params := fst (snd (getValue X root (Path (URL (Request c))) (Params c)))\<rparr>))
                 | None \<Rightarrow> serveNoMatch X engine c))"
    using assms
    by (auto simp: serveHTTPRequest_def Let_def split: option.splits prod.splits)
next
  let ?X = "X\<lparr>findCaseInsensitivePath := fcip, CleanPath := cp\<rparr>"
  let ?E = "engine\<lparr>RedirectTrailingSlash := False, RedirectFixedPath := False\<rparr>"
  have "serveHTTPRequest ?X ?E c =
          (case map_of (trees engine) (Method (Request c)) of
              None \<Rightarrow> serveNoMatch ?X ?E c
            | Some root \<Rightarrow>
                (case getValue X root (Path (URL (Request c))) (Params c) of
                   (Some hs, params, tsr) \<Rightarrow>
                     WriteHeaderNow (Next X (c\<lparr>handlers := hs, Params := params\<rparr>))
                 | (None, params, tsr) \<Rightarrow> serveNoMatch ?X ?E c))"
    using assms
    by (auto simp: serveHTTPRequest_def Let_def split: option.splits prod.splits)
  also have "\<dots> = serveHTTPRequest X engine c"
    using assms
    by (auto simp: serveHTTPRequest_def Let_def serveNoMatch_redirect_options
             split: option.splits prod.splits)
  finally show "serveHTTPRequest X engine c = serveHTTPRequest ?X ?E c"
    by simp
qed

theorem no_redirect_for_connect_or_root_witness:
  "Status (serveHTTPRequest sampleX connectEngine (sampleContext ''CONNECT'' ''/foo/'')) = 405
   \<and> Header_Get (serveHTTPRequest sampleX connectEngine (sampleContext ''CONNECT'' ''/foo/'')) ''Location'' = None
   \<and> snd (serveAutoRedirect sampleX connectEngine (sampleContext ''CONNECT'' ''/foo/'') [(''/foo'', [Pass])] True)
   \<and> Status (serveHTTPRequest sampleX fooEngine (sampleContext ''GET'' ''/'')) = 404"
proof -
  have m: "Method (Request (sampleContext ''CONNECT'' ''/foo/'')) = ''CONNECT''
           \<or> Path (URL (Request (sampleContext ''CONNECT'' ''/foo/''))) = ''/''"
    by (simp add: sampleContext_def)
  have r: "Method (Request (sampleContext ''GET'' ''/'')) = ''CONNECT''
           \<or> Path (URL (Request (sampleContext ''GET'' ''/''))) = ''/''"
    by (simp add: sampleContext_def)
  have 1: "serveHTTPRequest sampleX connectEngine (sampleContext ''CONNECT'' ''/foo/'')
           = serveNoMatch sampleX connectEngine (sampleContext ''CONNECT'' ''/foo/'')"
    using no_redirect_for_connect_or_root [OF m, of sampleX connectEngine]
    by (simp add: connectEngine_def sample_simps)
  have 2: "serveHTTPRequest sampleX fooEngine (sampleContext ''GET'' ''/'')
           = serveNoMatch sampleX fooEngine (sampleContext ''GET'' ''/'')"
    using no_redirect_for_connect_or_root [OF r, of sampleX fooEngine]
    by (simp add: sample_simps)
  have 3: "Status (serveNoMatch sampleX connectEngine (sampleContext ''CONNECT'' ''/foo/'')) = 405
           \<and> Header_Get (serveNoMatch sampleX connectEngine (sampleContext ''CONNECT'' ''/foo/'')) ''Location'' = None"
    by (simp add: serveNoMatch_def connectEngine_def New_def run_simps sampleGetValue_def
        default405Body_def Header_Get_def)
  have 4: "Status (serveNoMatch sampleX fooEngine (sampleContext ''GET'' ''/'')) = 404"
    by (simp add: serveNoMatch_def fooEngine_def New_def run_simps sampleGetValue_def
        default404Body_def)
  have 5: "snd (serveAutoRedirect sampleX connectEngine (sampleContext ''CONNECT'' ''/foo/'') [(''/foo'', [Pass])] True)"
    by (simp add: connectEngine_def sample_simps)
  from 1 2 3 4 5 show ?thesis by simp
qed

section \<open>Not found and method not allowed\<close>

text \<open>
  C6. When the request matches no route and no automatic redirect applies (the method has
  no tree, or its tree has no handlers for the path and either the redirect is not
  attempted or \<open>serveAutoRedirect\<close> declines), the engine serves 405 if and only if
  \<open>HandleMethodNotAllowed\<close> is on and the tree of some other method resolves the same
  path to a handler chain; otherwise it serves 404.
\<close>

theorem method_not_allowed_or_not_found:
  assumes "map_of (trees engine) (Method (Request c)) = None
           \<or> (\<exists>root. map_of (trees engine) (Method (Request c)) = Some root
                \<and> fst (getValue X root (Path (URL (Request c))) (Params c)) = None
                \<and> (Method (Request c) = ''CONNECT'' \<or> Path (URL (Request c)) = ''/''
                    \<or> \<not> snd (serveAutoRedirect X engine c root
                               (snd (snd (getValue X root (Path (URL (Request c))) (Params c)))))))"
  shows "serveHTTPRequest X engine c =
           (if HandleMethodNotAllowed engine
               \<and> (\<exists>(method, root)\<in>set (trees engine).
                     method \<noteq> Method (Request c)
                     \<and> fst (getValue X root (Path (URL (Request c))) []) \<noteq> None)
            then serveError X (c\<lparr>handlers := allNoMethod engine\<rparr>) 405 default405Body
            else serveError X (c\<lparr>handlers := allNoMethod engine\<rparr>) 404 default404Body)"
proof -
  have fallthrough: "serveAutoRedirect X engine c root tsr = (c', False) \<Longrightarrow> c' = c"
    for root tsr c'
    by (auto simp: serveAutoRedirect_def Let_def split: if_splits prod.splits)
  have "serveHTTPRequest X engine c = serveNoMatch X engine c"
    using assms
  proof
    assume "map_of (trees engine) (Method (Request c)) = None"
    then show ?thesis by (simp add: serveHTTPRequest_def Let_def)
  next
    assume "\<exists>root. map_of (trees engine) (Method (Request c)) = Some root
                \<and> fst (getValue X root (Path (URL (Request c))) (Params c)) = None
                \<and> (Method (Request c) = ''CONNECT'' \<or> Path (URL (Request c)) = ''/''
                    \<or> \<not> snd (serveAutoRedirect X engine c root
                               (snd (snd (getValue X root (Path (URL (Request c))) (Params c))))))"
    then obtain root where root: "map_of (trees engine) (Method (Request c)) = Some root"
      and miss: "fst (getValue X root (Path (URL (Request c))) (Params c)) = None"
      and nored: "Method (Request c) = ''CONNECT'' \<or> Path (URL (Request c)) = ''/''
                    \<or> \<not> snd (serveAutoRedirect X engine c root
                               (snd (snd (getValue X root (Path (URL (Request c))) (Params c)))))"
      by blast
    obtain hs params tsr where gv: "getValue X root (Path (URL (Request c))) (Params c) = (hs, params, tsr)"
      by (cases "getValue X root (Path (URL (Request c))) (Params c)") auto
    with miss have hs: "hs = None" by simp
    show ?thesis
    proof (cases "Method (Request c) \<noteq> ''CONNECT'' \<and> Path (URL (Request c)) \<noteq> ''/''")
      case False
      then show ?thesis
        using root gv hs by (auto simp: serveHTTPRequest_def Let_def)
    next
      case True
      with nored gv have "\<not> snd (serveAutoRedirect X engine c root tsr)" by simp
      then obtain c' where sar: "serveAutoRedirect X engine c root tsr = (c', False)"
        by (cases "serveAutoRedirect X engine c root tsr") auto
      from fallthrough [OF sar] have "c' = c" .
      with sar True root gv hs show ?thesis
        by (simp add: serveHTTPRequest_def Let_def)
    qed
  qed
  then show ?thesis
    by (simp add: serveNoMatch_def Let_def otherMethodMatches_iff)
qed

theorem method_not_allowed_or_not_found_witness:
  "Status (serveHTTPRequest sampleX fooEngine (sampleContext ''PUT'' ''/foo'')) = 405
   \<and> body (Writer (serveHTTPRequest sampleX fooEngine (sampleContext ''PUT'' ''/foo''))) = ''405 method not allowed''
   \<and> Status (serveHTTPRequest sampleX fooEngine (sampleContext ''GET'' ''/bar'')) = 404
   \<and> Status (serveHTTPRequest sampleX (fooEngine\<lparr>HandleMethodNotAllowed := False\<rparr>)
        (sampleContext ''PUT'' ''/foo'')) = 404"
proof -
  let ?put = "sampleContext ''PUT'' ''/foo''"
  let ?get = "sampleContext ''GET'' ''/bar''"
  let ?off = "fooEngine\<lparr>HandleMethodNotAllowed := False\<rparr>"
  have a: "map_of (trees fooEngine) (Method (Request ?put)) = None
           \<or> (\<exists>root. map_of (trees fooEngine) (Method (Request ?put)) = Some root
                \<and> fst (getValue sampleX root (Path (URL (Request ?put))) (Params ?put)) = None
                \<and> (Method (Request ?put) = ''CONNECT'' \<or> Path (URL (Request ?put)) = ''/''
                    \<or> \<not> snd (serveAutoRedirect sampleX fooEngine ?put root
                               (snd (snd (getValue sampleX root (Path (URL (Request ?put))) (Params ?put)))))))"
    by (simp add: fooEngine_def sampleContext_def)
  have b: "map_of (trees fooEngine) (Method (Request ?get)) = None
           \<or> (\<exists>root. map_of (trees fooEngine) (Method (Request ?get)) = Some root
                \<and> fst (getValue sampleX root (Path (URL (Request ?get))) (Params ?get)) = None
                \<and> (Method (Request ?get) = ''CONNECT'' \<or> Path (URL (Request ?get)) = ''/''
                    \<or> \<not> snd (serveAutoRedirect sampleX fooEngine ?get root
                               (snd (snd (getValue sampleX root (Path (URL (Request ?get))) (Params ?get)))))))"
    by (simp add: sample_simps)
  have c: "map_of (trees ?off) (Method (Request ?put)) = None
           \<or> (\<exists>root. map_of (trees ?off) (Method (Request ?put)) = Some root
                \<and> fst (getValue sampleX root (Path (URL (Request ?put))) (Params ?put)) = None
                \<and> (Method (Request ?put) = ''CONNECT'' \<or> Path (URL (Request ?put)) = ''/''
                    \<or> \<not> snd (serveAutoRedirect sampleX ?off ?put root
                               (snd (snd (getValue sampleX root (Path (URL (Request ?put))) (Params ?put)))))))"
    by (simp add: fooEngine_def sampleContext_def)
  have 1: "serveHTTPRequest sampleX fooEngine ?put
             = serveError sampleX (?put\<lparr>handlers := allNoMethod fooEngine\<rparr>) 405 default405Body"
    using method_not_allowed_or_not_found [OF a]
    by (simp add: fooEngine_def New_def sampleContext_def sampleX_def sampleGetValue_def)
  have 2: "serveHTTPRequest sampleX fooEngine ?get
             = serveError sampleX (?get\<lparr>handlers := allNoMethod fooEngine\<rparr>) 404 default404Body"
    using method_not_allowed_or_not_found [OF b]
    by (simp add: fooEngine_def New_def sampleContext_def sampleX_def sampleGetValue_def)
  have 3: "serveHTTPRequest sampleX ?off ?put
             = serveError sampleX (?put\<lparr>handlers := allNoMethod ?off\<rparr>) 404 default404Body"
    using method_not_allowed_or_not_found [OF c]
    by simp
  show ?thesis
    unfolding 1 2 3
    by (simp add: run_simps fooEngine_def New_def default405Body_def default404Body_def)
qed

text \<open>
  C3, as the code has it. After the chain has run under \<open>serveError\<close>: a response that
  was written is left exactly as the chain wrote it; when nothing was written and the
  status is still the error code, the default body is appended and the status kept; when
  nothing was written and the chain changed the status, the header is flushed with
  that status and no default body is written. So the default body is written exactly
  when nothing was written and the status is still the error code.
\<close>

theorem serveError_default_body:
  "(let c2 = Next X (c\<lparr>Writer := (Writer c)\<lparr>status := code\<rparr>\<rparr>);
        r = serveError X c code defaultMessage
    in (Written c2 \<longrightarrow> r = c2)
       \<and> (\<not> Written c2 \<and> Status c2 = code \<longrightarrow>
            body (Writer r) = body (Writer c2) @ defaultMessage \<and> Status r = code)
       \<and> (\<not> Written c2 \<and> Status c2 \<noteq> code \<longrightarrow>
            r = WriteHeaderNow c2 \<and> body (Writer r) = body (Writer c2) \<and> Status r = Status c2)
       \<and> (defaultMessage \<noteq> [] \<longrightarrow>
            (body (Writer r) = body (Writer c2) @ defaultMessage)
              = (\<not> Written c2 \<and> Status c2 = code)))"
  by (simp add: serveError_def Let_def body_Data body_WriteHeaderNow Status_WriteHeaderNow
      Status_Data_keep)

theorem serveError_default_body_witness:
  "body (Writer (serveError sampleX (sampleContext ''GET'' ''/bar'') 404 default404Body)) = ''404 page not found''
   \<and> body (Writer (serveError sampleX ((sampleContext ''GET'' ''/bar'')\<lparr>handlers := [AbortWith 409]\<rparr>) 404 default404Body)) = []
   \<and> Status (serveError sampleX ((sampleContext ''GET'' ''/bar'')\<lparr>handlers := [AbortWith 409]\<rparr>) 404 default404Body) = 409
   \<and> body (Writer (serveError sampleX ((sampleContext ''GET'' ''/bar'')\<lparr>handlers := [WriteBody ''gone'']\<rparr>) 404 default404Body)) = ''gone''"
proof -
  let ?c = "sampleContext ''GET'' ''/bar''"
  let ?d = "?c\<lparr>handlers := [AbortWith 409]\<rparr>"
  let ?e = "?c\<lparr>handlers := [WriteBody ''gone'']\<rparr>"
  have c: "\<not> Written (Next sampleX (?c\<lparr>Writer := (Writer ?c)\<lparr>status := 404\<rparr>\<rparr>))
           \<and> Status (Next sampleX (?c\<lparr>Writer := (Writer ?c)\<lparr>status := 404\<rparr>\<rparr>)) = 404
           \<and> body (Writer (Next sampleX (?c\<lparr>Writer := (Writer ?c)\<lparr>status := 404\<rparr>\<rparr>))) = []"
    by (simp add: run_simps)
  have d: "\<not> Written (Next sampleX (?d\<lparr>Writer := (Writer ?d)\<lparr>status := 404\<rparr>\<rparr>))
           \<and> Status (Next sampleX (?d\<lparr>Writer := (Writer ?d)\<lparr>status := 404\<rparr>\<rparr>)) = 409
           \<and> Status (Next sampleX (?d\<lparr>Writer := (Writer ?d)\<lparr>status := 404\<rparr>\<rparr>)) \<noteq> 404
           \<and> body (Writer (Next sampleX (?d\<lparr>Writer := (Writer ?d)\<lparr>status := 404\<rparr>\<rparr>))) = []"
    by (simp add: run_simps)
  have e: "Written (Next sampleX (?e\<lparr>Writer := (Writer ?e)\<lparr>status := 404\<rparr>\<rparr>))
           \<and> body (Writer (Next sampleX (?e\<lparr>Writer := (Writer ?e)\<lparr>status := 404\<rparr>\<rparr>))) = ''gone''"
    by (simp add: run_simps)
  from serveError_default_body [where X = sampleX and c = "?c" and code = 404 and defaultMessage = default404Body] c
  have 1: "body (Writer (serveError sampleX ?c 404 default404Body)) = ''404 page not found''"
    by (simp add: Let_def default404Body_def)
  from serveError_default_body [where X = sampleX and c = "?d" and code = 404 and defaultMessage = default404Body] d
  have 2: "body (Writer (serveError sampleX ?d 404 default404Body)) = []
           \<and> Status (serveError sampleX ?d 404 default404Body) = 409"
    by (simp add: Let_def body_WriteHeaderNow Status_WriteHeaderNow)
  from serveError_default_body [where X = sampleX and c = "?e" and code = 404 and defaultMessage = default404Body] e
  have 3: "body (Writer (serveError sampleX ?e 404 default404Body)) = ''gone''"
    by (simp add: Let_def)
  from 1 2 3 show ?thesis by simp
qed

text \<open>
  C3 as stated fails: a middleware that aborts with 409 writes nothing, and on a request
  that matches no route the default body is not written either; the response is the 409
  with an empty body.
\<close>

theorem serveError_default_body_counterexample:
  "\<not> Written (Next sampleX ((sampleContext ''GET'' ''/'')
        \<lparr>handlers := [AbortWith 409], Writer := (Writer (sampleContext ''GET'' ''/''))\<lparr>status := 404\<rparr>\<rparr>))
   \<and> body (Writer (Next sampleX ((sampleContext ''GET'' ''/'')
        \<lparr>handlers := [AbortWith 409], Writer := (Writer (sampleContext ''GET'' ''/''))\<lparr>status := 404\<rparr>\<rparr>))) = []
   \<and> body (Writer (serveError sampleX ((sampleContext ''GET'' ''/'')\<lparr>handlers := [AbortWith 409]\<rparr>)
        404 default404Body)) \<noteq> default404Body
   \<and> allNoMethod (Use (New :: (sampleNode, sampleHandler) Engine) [AbortWith 409]) = [AbortWith 409]
   \<and> body (Writer (serveHTTPRequest sampleX (Use New [AbortWith 409]) (sampleContext ''GET'' ''/''))) = []
   \<and> Status (serveHTTPRequest sampleX (Use New [AbortWith 409]) (sampleContext ''GET'' ''/'')) = 409"
  by (simp add: run_simps default404Body_def Use_def RouterGroup_Use_def rebuild404Handlers_def
      rebuild405Handlers_def combineHandlers_def New_def serveHTTPRequest_def serveNoMatch_def)

text \<open>
  C1. On an engine with a \<open>NoRoute\<close> handler and no route at all, a request is served
  as 404 with the chain \<open>allNoMethod\<close> (here empty) in the context: the \<open>NoRoute\<close>
  handler in \<open>allNoRoute\<close> is not run, and the default body is written where the
  handler's own body would have been.
\<close>

theorem not_found_runs_noMethod_chain:
  "allNoRoute (NoRoute (New :: (sampleNode, sampleHandler) Engine) [WriteBody ''custom 404''])
       = [WriteBody ''custom 404'']
   \<and> allNoMethod (NoRoute (New :: (sampleNode, sampleHandler) Engine) [WriteBody ''custom 404'']) = []
   \<and> handlers (serveHTTPRequest sampleX (NoRoute New [WriteBody ''custom 404''])
        (sampleContext ''GET'' ''/missing'')) = []
   \<and> body (Writer (serveHTTPRequest sampleX (NoRoute New [WriteBody ''custom 404''])
        (sampleContext ''GET'' ''/missing''))) = ''404 page not found''
   \<and> body (Writer (serveError sampleX
        ((sampleContext ''GET'' ''/missing'')\<lparr>handlers := [WriteBody ''custom 404'']\<rparr>)
        404 default404Body)) = ''custom 404''"
  by (simp add: NoRoute_def rebuild404Handlers_def combineHandlers_def New_def
      serveHTTPRequest_def serveNoMatch_def run_simps default404Body_def)

section \<open>Registration\<close>

text \<open>
  C7. \<open>handle\<close> panics with ``path must begin with '/' '' whenever the pattern's first
  character is not \<^verbatim>\<open>/\<close> (an empty pattern panics on reading that character); a
  pattern that begins with \<^verbatim>\<open>/\<close> is passed to \<open>addRoute\<close> on the method's tree, a new
  one if the method had none, and the outcome is \<open>addRoute\<close>'s.
\<close>

theorem handle_path_must_begin_with_slash:
  "(path \<noteq> [] \<and> hd path \<noteq> CHR ''/'' \<longrightarrow>
      handle X engine httpMethod path hs = Inl PathMustBeginWithSlash)
   \<and> (path = [] \<longrightarrow> handle X engine httpMethod path hs = Inl IndexOutOfRange)
   \<and> (path \<noteq> [] \<and> hd path = CHR ''/'' \<longrightarrow>
        handle X engine httpMethod path hs \<noteq> Inl PathMustBeginWithSlash
        \<and> handle X engine httpMethod path hs \<noteq> Inl IndexOutOfRange
        \<and> handle X engine httpMethod path hs =
            (case addRoute X (case map_of (trees engine) httpMethod of
                                None \<Rightarrow> newNode X | Some r \<Rightarrow> r) path hs of
               Inl err \<Rightarrow> Inl (AddRoutePanic err)
             | Inr root' \<Rightarrow> Inr (engine\<lparr>trees := AList.update httpMethod root' (trees engine)\<rparr>)))"
  by (cases path) (auto simp: handle_def Let_def split: sum.splits)

theorem handle_path_must_begin_with_slash_witness:
  "handle sampleX fooEngine ''GET'' ''foo'' [Pass] = Inl PathMustBeginWithSlash
   \<and> handle sampleX fooEngine ''GET'' [] [Pass] = Inl IndexOutOfRange
   \<and> handle sampleX fooEngine ''PUT'' ''/bar'' [Pass]
       = Inr (fooEngine\<lparr>trees := trees fooEngine @ [(''PUT'', [(''/bar'', [Pass])])]\<rparr>)"
proof -
  have a: "''foo'' \<noteq> [] \<and> hd ''foo'' \<noteq> CHR ''/''" by simp
  have b: "''/bar'' \<noteq> [] \<and> hd ''/bar'' = CHR ''/''" by simp
  from handle_path_must_begin_with_slash [where path = "''foo''" and X = sampleX
      and engine = fooEngine and httpMethod = "''GET''" and hs = "[Pass]"] a
  have 1: "handle sampleX fooEngine ''GET'' ''foo'' [Pass] = Inl PathMustBeginWithSlash"
    by blast
  from handle_path_must_begin_with_slash [where path = "[]" and X = sampleX
      and engine = fooEngine and httpMethod = "''GET''" and hs = "[Pass]"]
  have 2: "handle sampleX fooEngine ''GET'' [] [Pass] = Inl IndexOutOfRange"
    by blast
  from handle_path_must_begin_with_slash [where path = "''/bar''" and X = sampleX
      and engine = fooEngine and httpMethod = "''PUT''" and hs = "[Pass]"] b
  have "handle sampleX fooEngine ''PUT'' ''/bar'' [Pass] =
            (case addRoute sampleX (case map_of (trees fooEngine) ''PUT'' of
                                None \<Rightarrow> newNode sampleX | Some r \<Rightarrow> r) ''/bar'' [Pass] of
               Inl err \<Rightarrow> Inl (AddRoutePanic err)
             | Inr root' \<Rightarrow> Inr (fooEngine\<lparr>trees := AList.update ''PUT'' root' (trees fooEngine)\<rparr>))"
    by blast
  then have 3: "handle sampleX fooEngine ''PUT'' ''/bar'' [Pass]
       = Inr (fooEngine\<lparr>trees := trees fooEngine @ [(''PUT'', [(''/bar'', [Pass])])]\<rparr>)"
    by (simp add: sampleX_def fooEngine_def)
  from 1 2 3 show ?thesis by simp
qed

end
